theory Spec2Isabelle
  imports Complex_Main "HOL-Library.AList"
begin

section \<open>Data model of \<open>main.py\<close>\<close>

text \<open>
  Conventions of the embedding.
  \<^item> Every amount of money (Python \<open>float\<close>) is a \<^typ>\<open>real\<close>. The arithmetic that
    builds a subtotal (the conversion of a quantity, the product of a price and a
    quantity, the running sum) rounds every result to binary64, as the operations on
    \<open>float\<close> do; the arithmetic of the discounts and of the total is exact. Magnitudes
    from \<open>2 ^ 1024\<close> on (where a \<open>float\<close> overflows and the conversion of an \<open>int\<close>
    raises \<open>OverflowError\<close>), infinities and NaN are outside the model.
  \<^item> Quantities (Python \<open>int\<close>) are \<^typ>\<open>int\<close>.
  \<^item> A \<open>uuid.uuid4()\<close> identifier is an opaque \<^typ>\<open>nat\<close> that the caller supplies.
    \<open>Product\<close> defines neither \<open>__eq__\<close> nor \<open>__hash__\<close>, so a dictionary compares
    products by object identity; the model compares the records, whose identifier
    field stands for that identity.
  \<^item> \<open>datetime.now()\<close> is an input \<open>now\<close> of the functions that read the clock; points
    in time and durations are counted in seconds.
  \<^item> \<open>print\<close> produces no value and is left out.
  \<^item> The classes \<open>DiscountStrategy\<close> and \<open>DeliveryStrategy\<close> are interfaces whose
    methods only raise \<open>NotImplementedError\<close>; a strategy is one of their subclasses.
  \<^item> A method takes the object as an argument and returns the object it leaves behind.
  \<^item> Names are those of the source. Where two classes share a field or method name the
    model tells them apart: \<open>product_id\<close> and \<open>order_id\<close> for \<open>id\<close>, \<open>product_name\<close> and
    \<open>customer_name\<close> for \<open>name\<close>, \<open>cart_items\<close> for the cart's \<open>items\<close>,
    \<open>cart_calculate_subtotal\<close> for the cart's \<open>calculate_subtotal\<close>, and
    \<open>processor_type\<close> for the processor's \<open>type\<close>.
\<close>

subsection \<open>Binary floating point\<close>

text \<open>
  A \<open>float\<close> is an IEEE 754 binary64 number: 53 significant bits, the exponent of the
  leading bit at least \<open>-1022\<close>. The result of an operation is the exact result rounded to
  the nearest such number, a tie going to the even significand. \<open>exponent n x\<close> is the
  exponent of the leading bit of \<open>x > 0\<close>, found in at most \<open>n\<close> steps of halving or
  doubling.
\<close>

definition round_half_even :: "real \<Rightarrow> int" where
  "round_half_even x =
     (let n = \<lfloor>x\<rfloor>; d = x - of_int n
      in if d < 1 / 2 then n else if 1 / 2 < d then n + 1 else if even n then n else n + 1)"

fun exponent :: "nat \<Rightarrow> real \<Rightarrow> int" where
  "exponent 0 x = 0"
| "exponent (Suc n) x =
     (if 2 \<le> x then exponent n (x / 2) + 1
      else if x < 1 then exponent n (2 * x) - 1
      else 0)"

definition pow2 :: "int \<Rightarrow> real" where
  "pow2 k = (if 0 \<le> k then 2 ^ nat k else 1 / 2 ^ nat (- k))"

definition float_round :: "real \<Rightarrow> real" where
  "float_round x =
     (if x = 0 then 0
      else (let q = pow2 (max (exponent 1024 \<bar>x\<bar>) (- 1022) - 52)
            in of_int (round_half_even (x / q)) * q))"


definition float_of_int :: "int \<Rightarrow> real" where
  "float_of_int i = float_round (of_int i)"

definition float_add :: "real \<Rightarrow> real \<Rightarrow> real" where
  "float_add a b = float_round (a + b)"

definition float_mul :: "real \<Rightarrow> real \<Rightarrow> real" where
  "float_mul a b = float_round (a * b)"

subsection \<open>\<open>OrderStatus\<close>\<close>

definition PENDING :: string where "PENDING = ''Pending''"
definition PAID :: string where "PAID = ''Paid''"
definition SHIPPED :: string where "SHIPPED = ''Shipped''"
definition DELIVERED :: string where "DELIVERED = ''Delivered''"

subsection \<open>\<open>DeliveryInfo\<close>, \<open>Product\<close>, \<open>Customer\<close>\<close>

record delivery_info =
  cost :: real
  delivery_time :: int
  estimated_delivery_time :: int

record product =
  product_id :: nat
  product_name :: string
  description :: string
  price :: real
  stock_quantity :: int

record customer =
  customer_name :: string
  email :: string
  address :: string
  phone_number :: string

subsection \<open>\<open>PaymentProcessor\<close>\<close>

record payment_processor =
  processor_type :: string

definition process_payment ::
  "payment_processor \<Rightarrow> real \<Rightarrow> (string \<rightharpoonup> string) \<Rightarrow> bool" where
  "process_payment self amount details = True"

subsection \<open>\<open>OrderItem\<close>\<close>

record order_item =
  product :: product
  quantity :: int
  final_price :: real

definition OrderItem :: "product \<Rightarrow> int \<Rightarrow> order_item" where
  "OrderItem p q =
     \<lparr>product = p, quantity = q, final_price = float_mul (price p) (float_of_int q)\<rparr>"

definition get_subtotal :: "order_item \<Rightarrow> real" where
  "get_subtotal self = final_price self"

subsection \<open>\<open>ShoppingCart\<close>\<close>

text \<open>
  The dictionary \<open>items\<close> is an association list in insertion order:
  \<^const>\<open>AList.update\<close> overwrites the value of a key that is present, in place, and
  appends a new key at the end, as an assignment to a Python \<open>dict\<close> does.
\<close>

record shopping_cart =
  cart_items :: "(product \<times> int) list"

definition ShoppingCart :: shopping_cart where
  "ShoppingCart = \<lparr>cart_items = []\<rparr>"

definition add_item :: "product \<Rightarrow> int \<Rightarrow> shopping_cart \<Rightarrow> shopping_cart" where
  "add_item p q self =
     (case map_of (cart_items self) p of
        Some q0 \<Rightarrow> self\<lparr>cart_items := AList.update p (q0 + q) (cart_items self)\<rparr>
      | None \<Rightarrow> self\<lparr>cart_items := AList.update p q (cart_items self)\<rparr>)"

definition remove_item :: "product \<Rightarrow> shopping_cart \<Rightarrow> shopping_cart" where
  "remove_item p self =
     (case map_of (cart_items self) p of
        Some q0 \<Rightarrow> self\<lparr>cart_items := AList.delete p (cart_items self)\<rparr>
      | None \<Rightarrow> self)"

definition get_items :: "shopping_cart \<Rightarrow> (product \<times> int) list" where
  "get_items self = cart_items self"

definition cart_calculate_subtotal :: "shopping_cart \<Rightarrow> real" where
  "cart_calculate_subtotal self =
     foldl (\<lambda>subtotal (p, q). float_add subtotal (float_mul (price p) (float_of_int q))) 0
       (cart_items self)"

subsection \<open>Discount strategies\<close>

text \<open>
  A constructor of the datatype holds the fields of the object.
  \<open>PercentageDiscountStrategy.__init__\<close> stores its argument divided by 100.
\<close>

datatype discount_strategy =
    NoDiscount
  | PercentageDiscountStrategy (percentage: real)
  | FixedAmountDiscountStrategy (fixed_amount: real)

definition PercentageDiscountStrategy_init :: "real \<Rightarrow> discount_strategy" where
  "PercentageDiscountStrategy_init p = PercentageDiscountStrategy (p / 100)"

fun apply_discount :: "discount_strategy \<Rightarrow> real \<Rightarrow> real" where
  "apply_discount NoDiscount amount = amount"
| "apply_discount (PercentageDiscountStrategy pc) amount = amount * pc"
| "apply_discount (FixedAmountDiscountStrategy fa) amount = min amount fa"

subsection \<open>Delivery strategies\<close>

datatype delivery_strategy =
    PickupDeliveryStrategy
  | CourierDeliveryStrategy
  | PostDeliveryStrategy

definition timedelta_hours :: "int \<Rightarrow> int" where
  "timedelta_hours h = h * 3600"

definition timedelta_days :: "int \<Rightarrow> int" where
  "timedelta_days d = d * 86400"

fun COST :: "delivery_strategy \<Rightarrow> real" where
  "COST PickupDeliveryStrategy = 0"
| "COST CourierDeliveryStrategy = 400"
| "COST PostDeliveryStrategy = 150"

fun TIME_DELTA :: "delivery_strategy \<Rightarrow> int" where
  "TIME_DELTA PickupDeliveryStrategy = timedelta_hours 4"
| "TIME_DELTA CourierDeliveryStrategy = timedelta_days 2"
| "TIME_DELTA PostDeliveryStrategy = timedelta_days 7"

definition calculate_cost :: "delivery_strategy \<Rightarrow> string \<Rightarrow> real \<Rightarrow> real" where
  "calculate_cost self addr total_weight = COST self"

fun estimate_delivery_time :: "delivery_strategy \<Rightarrow> string \<Rightarrow> int \<Rightarrow> delivery_info" where
  "estimate_delivery_time PickupDeliveryStrategy addr now =
     \<lparr>cost = COST PickupDeliveryStrategy,
      delivery_time = TIME_DELTA PickupDeliveryStrategy,
      estimated_delivery_time = now + TIME_DELTA PickupDeliveryStrategy\<rparr>"
| "estimate_delivery_time CourierDeliveryStrategy addr now =
     \<lparr>cost = 0,
      delivery_time = TIME_DELTA CourierDeliveryStrategy,
      estimated_delivery_time = now + TIME_DELTA CourierDeliveryStrategy\<rparr>"
| "estimate_delivery_time PostDeliveryStrategy addr now =
     \<lparr>cost = 0,
      delivery_time = TIME_DELTA PostDeliveryStrategy,
      estimated_delivery_time = now + TIME_DELTA PostDeliveryStrategy\<rparr>"

subsection \<open>\<open>Order\<close>\<close>

text \<open>
  The only exception that \<open>Order\<close> raises is the \<open>ValueError\<close> of \<open>calculate_total\<close>
  (its message asks for a delivery strategy to be chosen).
\<close>

datatype error = ValueError

record order =
  order_id :: nat
  customer :: customer
  items :: "order_item list"
  total_amount :: real
  status :: string
  discount_strategy :: discount_strategy
  delivery_strategy :: "delivery_strategy option"
  applied_discount :: real
  delivery_info :: "delivery_info option"
  subtotal_calculated :: real
  delivery_cost :: real

definition Order :: "nat \<Rightarrow> customer \<Rightarrow> order" where
  "Order oid c =
     \<lparr>order_id = oid,
      customer = c,
      items = [],
      total_amount = 0,
      status = PENDING,
      discount_strategy = NoDiscount,
      delivery_strategy = None,
      applied_discount = 0,
      delivery_info = None,
      subtotal_calculated = 0,
      delivery_cost = 0\<rparr>"

definition set_discount_strategy :: "discount_strategy \<Rightarrow> order \<Rightarrow> order" where
  "set_discount_strategy strategy self = self\<lparr>discount_strategy := strategy\<rparr>"

definition set_delivery_strategy :: "delivery_strategy \<Rightarrow> order \<Rightarrow> order" where
  "set_delivery_strategy strategy self = self\<lparr>delivery_strategy := Some strategy\<rparr>"

definition add_item_from_cart :: "product \<Rightarrow> int \<Rightarrow> order \<Rightarrow> order" where
  "add_item_from_cart p q self = self\<lparr>items := items self @ [OrderItem p q]\<rparr>"

text \<open>
  \<open>sum\<close> adds the line totals from the left, starting from 0, and every addition
  rounds. (This is the summation of CPython up to 3.11. Later versions carry the rounding
  errors of a sum of floats along and add them at the end, which gives the same result
  when no addition rounds and when there are at most two summands.) The method returns
  the sum and stores it in the order.
\<close>

definition calculate_subtotal :: "order \<Rightarrow> real \<times> order" where
  "calculate_subtotal self =
     (let s = foldl float_add 0 (map get_subtotal (items self))
      in (s, self\<lparr>subtotal_calculated := s\<rparr>))"

text \<open>
  \<open>calculate_total\<close> returns the raised error or the returned total, together with the
  order as the call leaves it: the assignments made before the \<open>raise\<close> stay.
\<close>

definition calculate_total :: "real \<Rightarrow> int \<Rightarrow> order \<Rightarrow> (error + real) \<times> order" where
  "calculate_total total_weight now self =
     (let (subtotal, self1) = calculate_subtotal self;
          self2 = self1\<lparr>applied_discount := apply_discount (discount_strategy self1) subtotal\<rparr>;
          amount_after_discount = subtotal - applied_discount self2
      in case delivery_strategy self2 of
           None \<Rightarrow> (Inl ValueError, self2)
         | Some strategy \<Rightarrow>
             (let self3 = self2\<lparr>delivery_cost :=
                            calculate_cost strategy (address (customer self2)) total_weight\<rparr>;
                  info = estimate_delivery_time strategy (address (customer self3)) now;
                  self4 = self3\<lparr>delivery_info := Some (info\<lparr>cost := delivery_cost self3\<rparr>)\<rparr>;
                  self5 = self4\<lparr>total_amount := amount_after_discount + delivery_cost self4\<rparr>
              in (Inr (total_amount self5), self5)))"

subsection \<open>\<open>OrderPlacementFacade\<close>\<close>

text \<open>
  The facade calls \<open>process_payment\<close> on whatever processor object it was given; the
  model keeps the processor as that method, a function from the amount and the payment
  details to the answer. \<open>OrderPlacementFacade\<close> builds the facade around the
  \<open>PaymentProcessor\<close> class of the source.

  \<open>delivery_details\<close> maps a key to a number: the only entry that \<open>place_order\<close> reads
  is \<open>'weight'\<close>, through \<open>float(delivery_details.get('weight', 0))\<close>.
\<close>

record order_placement_facade =
  payment_processor :: "real \<Rightarrow> (string \<rightharpoonup> string) \<Rightarrow> bool"

definition OrderPlacementFacade :: "payment_processor \<Rightarrow> order_placement_facade" where
  "OrderPlacementFacade p = \<lparr>payment_processor = process_payment p\<rparr>"

definition place_order ::
  "order_placement_facade \<Rightarrow> nat \<Rightarrow> int \<Rightarrow> shopping_cart \<Rightarrow> customer \<Rightarrow>
   discount_strategy \<Rightarrow> delivery_strategy \<Rightarrow> (string \<rightharpoonup> real) \<Rightarrow> (string \<rightharpoonup> string) \<Rightarrow>
   error + order" where
  "place_order self oid now cart c discount delivery delivery_details payment_details =
     (let order0 = Order oid c;
          total_weight = (case delivery_details ''weight'' of None \<Rightarrow> 0 | Some w \<Rightarrow> w);
          order1 = foldl (\<lambda>ord (p, q). add_item_from_cart p q ord) order0 (get_items cart);
          order2 = set_discount_strategy discount order1;
          order3 = set_delivery_strategy delivery order2
      in case calculate_total total_weight now order3 of
           (Inl e, order4) \<Rightarrow> Inl e
         | (Inr final_amount, order4) \<Rightarrow>
             (if payment_processor self final_amount payment_details
              then Inr (order4\<lparr>status := PAID\<rparr>)
              else Inr (order4\<lparr>status := PENDING\<rparr>)))"

subsection \<open>The demonstration run\<close>

text \<open>
  The values that the module builds at its end. A literal that holds Cyrillic text is
  given by the bytes of its UTF-8 encoding. The identifier that \<open>uuid4\<close> draws for a
  product or for the order is a parameter, and so is the clock. The entry \<open>'address'\<close>
  of \<open>delivery_details\<close> is a string that nothing reads; the model keeps the entry
  \<open>'weight'\<close>. The two strategies of the run are written out in \<open>final_order\<close>.
\<close>

definition utf8 :: "nat list \<Rightarrow> string" where
  "utf8 bytes = map char_of bytes"

definition milk :: "nat \<Rightarrow> product" where
  "milk uid =
     \<lparr>product_id = uid,
      product_name = utf8 [208, 156, 208, 190, 208, 187, 208, 190, 208, 186, 208, 190],
      description = utf8 [50, 46, 53, 37, 32, 208, 182, 208, 184, 209, 128, 208, 189, 208,
                          190, 209, 129, 209, 130, 208, 184],
      price = 85,
      stock_quantity = 100\<rparr>"

definition bread :: "nat \<Rightarrow> product" where
  "bread uid =
     \<lparr>product_id = uid,
      product_name = utf8 [208, 165, 208, 187, 208, 181, 208, 177],
      description = utf8 [208, 145, 208, 181, 208, 187, 209, 139, 208, 185, 32, 208, 189,
                          208, 176, 209, 128, 208, 181, 208, 183, 208, 189, 208, 190, 208,
                          185],
      price = 40,
      stock_quantity = 50\<rparr>"

definition heavy_item :: "nat \<Rightarrow> product" where
  "heavy_item uid =
     \<lparr>product_id = uid,
      product_name = utf8 [208, 147, 208, 176, 208, 189, 209, 130, 208, 181, 208, 187, 209,
                           140, 32, 49, 53, 208, 186, 208, 179],
      description = utf8 [208, 148, 208, 187, 209, 143, 32, 209, 129, 208, 191, 208, 190,
                          209, 128, 209, 130, 208, 176],
      price = 1200,
      stock_quantity = 10\<rparr>"

definition client :: customer where
  "client =
     \<lparr>customer_name = utf8 [208, 152, 208, 178, 208, 176, 208, 189, 32, 208, 159, 208, 181,
                            209, 130, 209, 128, 208, 190, 208, 178],
      email = ''ma@gmail.com'',
      address = utf8 [209, 131, 208, 187, 46, 32, 208, 155, 208, 181, 208, 189, 208, 184,
                      208, 189, 208, 176, 44, 32, 49, 48, 44, 32, 208, 156, 208, 190, 209,
                      129, 208, 186, 208, 178, 208, 176],
      phone_number = ''+7-999-111-22-33''\<rparr>"

definition processor :: payment_processor where
  "processor =
     \<lparr>processor_type = utf8 [208, 157, 208, 176, 208, 187, 208, 184, 209, 135, 208, 186,
                             208, 190, 208, 185]\<rparr>"

definition cart :: "nat \<Rightarrow> nat \<Rightarrow> nat \<Rightarrow> shopping_cart" where
  "cart u1 u2 u3 =
     add_item (heavy_item u3) 1 (add_item (bread u2) 1 (add_item (milk u1) 2 ShoppingCart))"

definition delivery_details :: "string \<rightharpoonup> real" where
  "delivery_details = [''weight'' \<mapsto> 16]"

definition payment_details :: "string \<rightharpoonup> string" where
  "payment_details = [''card_number'' \<mapsto> ''1234...'']"

definition facade :: order_placement_facade where
  "facade = OrderPlacementFacade processor"

definition final_order :: "nat \<Rightarrow> nat \<Rightarrow> nat \<Rightarrow> nat \<Rightarrow> int \<Rightarrow> error + order" where
  "final_order u1 u2 u3 oid now =
     place_order facade oid now (cart u1 u2 u3) client
       (FixedAmountDiscountStrategy 100) CourierDeliveryStrategy
       delivery_details payment_details"

section \<open>Numbers that binary64 holds exactly\<close>

lemma round_half_even_of_int: "round_half_even (of_int n) = n"
  by (simp add: round_half_even_def)

lemma exponent_upper: "x < 2 ^ Suc m \<Longrightarrow> exponent n x \<le> int m"
proof (induction n arbitrary: x m)
  case 0
  then show ?case by simp
next
  case (Suc n)
  show ?case
  proof (cases "2 \<le> x")
    case True
    with Suc.prems obtain m' where m: "m = Suc m'"
      by (cases m) auto
    with Suc.prems have "x / 2 < 2 ^ Suc m'" by simp
    then have "exponent n (x / 2) \<le> int m'" by (rule Suc.IH)
    with True m show ?thesis by simp
  next
    case False
    show ?thesis
    proof (cases "x < 1")
      case True
      then have "2 * x < 2 ^ Suc 0" by simp
      then have "exponent n (2 * x) \<le> int 0" by (rule Suc.IH)
      with True False show ?thesis by simp
    next
      case False
      with \<open>\<not> 2 \<le> x\<close> show ?thesis by simp
    qed
  qed
qed

text \<open>An integer below \<open>2 ^ 53\<close> in magnitude is not changed by rounding.\<close>

lemma float_round_of_int:
  assumes "\<bar>n\<bar> < 2 ^ 53"
  shows "float_round (of_int n) = of_int n"
proof (cases "n = 0")
  case True
  then show ?thesis by (simp add: float_round_def)
next
  case False
  define k where "k = max (exponent 1024 \<bar>real_of_int n\<bar>) (- 1022) - 52"
  from assms have "real_of_int \<bar>n\<bar> < 2 ^ 53"
    by (metis of_int_less_iff of_int_numeral of_int_power)
  then have "\<bar>real_of_int n\<bar> < 2 ^ Suc 52" by simp
  then have "exponent 1024 \<bar>real_of_int n\<bar> \<le> int 52" by (rule exponent_upper)
  then have k: "k \<le> 0" by (simp add: k_def)
  define j where "j = nat (- k)"
  from k have q: "pow2 k = 1 / 2 ^ j"
    by (cases "k = 0") (simp_all add: pow2_def j_def)
  have "real_of_int n / pow2 k = of_int (n * 2 ^ j)"
    by (simp add: q)
  then have "round_half_even (real_of_int n / pow2 k) = n * 2 ^ j"
    by (simp only: round_half_even_of_int)
  then have "of_int (round_half_even (real_of_int n / pow2 k)) * pow2 k = real_of_int n"
    by (simp add: q)
  with False show ?thesis
    by (simp add: float_round_def k_def Let_def)
qed

lemma float_round_numeral:
  "numeral w < (9007199254740992::int) \<Longrightarrow> float_round (numeral w) = numeral w"
  using float_round_of_int [of "numeral w"] by simp

lemma float_round_0: "float_round 0 = 0"
  by (simp add: float_round_def)

lemma float_round_1: "float_round 1 = 1"
  using float_round_of_int [of 1] by simp

lemmas float_exact =
  float_add_def float_mul_def float_of_int_def float_round_numeral float_round_0 float_round_1


section \<open>Discount strategies\<close>

text \<open>
  C1. The spec has the no-discount strategy return 0 for every subtotal. The method
  \<open>NoDiscount.apply_discount\<close> of the source returns its argument instead: at the
  subtotal 100 the discount is 100, not 0, so an order that keeps its default strategy
  has its whole subtotal taken off.
\<close>

theorem NoDiscount_returns_amount:
  "apply_discount NoDiscount 100 = 100 \<and> apply_discount NoDiscount 100 \<noteq> 0"
  by simp

text \<open>
  C2. The spec bounds every discount by \<open>0 \<le> apply_discount s \<le> s\<close> for every
  strategy and every subtotal \<open>s \<ge> 0\<close>. Neither constructor checks its argument: a
  percentage of 200 takes off twice the subtotal, and a negative percentage or a negative
  fixed amount gives a negative discount.
\<close>

theorem discount_out_of_range:
  "apply_discount (PercentageDiscountStrategy_init 200) 1 > 1
   \<and> apply_discount (PercentageDiscountStrategy_init (-10)) 10 < 0
   \<and> apply_discount (FixedAmountDiscountStrategy (-5)) 10 < 0"
  by (simp add: PercentageDiscountStrategy_init_def)

text \<open>
  C2, as the code has it. For a subtotal \<open>s \<ge> 0\<close> the discount lies between 0 and \<open>s\<close>
  for the no-discount strategy, for a percentage strategy built from \<open>p\<close> with
  \<open>0 \<le> p \<le> 100\<close>, and for a fixed-amount strategy with amount \<open>f \<ge> 0\<close>.
\<close>

theorem discount_within_subtotal:
  "0 \<le> s \<Longrightarrow>
     (0 \<le> apply_discount NoDiscount s \<and> apply_discount NoDiscount s \<le> s)
   \<and> (0 \<le> p \<and> p \<le> 100 \<longrightarrow>
        0 \<le> apply_discount (PercentageDiscountStrategy_init p) s
        \<and> apply_discount (PercentageDiscountStrategy_init p) s \<le> s)
   \<and> (0 \<le> f \<longrightarrow>
        0 \<le> apply_discount (FixedAmountDiscountStrategy f) s
        \<and> apply_discount (FixedAmountDiscountStrategy f) s \<le> s)"
proof (intro conjI impI)
  assume s: "0 \<le> s" and p: "0 \<le> p \<and> p \<le> 100"
  from p have r: "0 \<le> p / 100" "p / 100 \<le> 1" by simp_all
  show "0 \<le> apply_discount (PercentageDiscountStrategy_init p) s"
    using s r by (simp add: PercentageDiscountStrategy_init_def)
  show "apply_discount (PercentageDiscountStrategy_init p) s \<le> s"
    using mult_left_le [OF r(2) s] by (simp add: PercentageDiscountStrategy_init_def)
qed simp_all

theorem discount_within_subtotal_witness:
  "(0::real) \<le> 1410
   \<and> (0 \<le> apply_discount NoDiscount 1410 \<and> apply_discount NoDiscount 1410 \<le> 1410)
   \<and> ((0::real) \<le> 10 \<and> (10::real) \<le> 100)
   \<and> 0 \<le> apply_discount (PercentageDiscountStrategy_init 10) 1410
   \<and> apply_discount (PercentageDiscountStrategy_init 10) 1410 \<le> 1410
   \<and> (0::real) \<le> 100
   \<and> 0 \<le> apply_discount (FixedAmountDiscountStrategy 100) 1410
   \<and> apply_discount (FixedAmountDiscountStrategy 100) 1410 \<le> 1410"
  using discount_within_subtotal [of 1410 10 100] by simp

section \<open>Computing the total of an order\<close>

text \<open>
  The two outcomes of \<open>calculate_total\<close>, written out: the value it returns or raises
  and every field of the order afterwards.
\<close>

lemma calculate_total_unset:
  assumes "delivery_strategy self = None"
  shows "calculate_total w now self =
           (Inl ValueError,
            self\<lparr>subtotal_calculated := fst (calculate_subtotal self),
                 applied_discount :=
                   apply_discount (discount_strategy self) (fst (calculate_subtotal self))\<rparr>)"
  using assms by (simp add: calculate_total_def calculate_subtotal_def Let_def)

lemma calculate_total_set:
  assumes "delivery_strategy self = Some d"
  shows "calculate_total w now self =
           (Inr (fst (calculate_subtotal self)
                   - apply_discount (discount_strategy self) (fst (calculate_subtotal self))
                   + calculate_cost d (address (customer self)) w),
            self\<lparr>subtotal_calculated := fst (calculate_subtotal self),
                 applied_discount :=
                   apply_discount (discount_strategy self) (fst (calculate_subtotal self)),
                 delivery_cost := calculate_cost d (address (customer self)) w,
                 delivery_info :=
                   Some ((estimate_delivery_time d (address (customer self)) now)
                           \<lparr>cost := calculate_cost d (address (customer self)) w\<rparr>),
                 total_amount :=
                   fst (calculate_subtotal self)
                     - apply_discount (discount_strategy self) (fst (calculate_subtotal self))
                     + calculate_cost d (address (customer self)) w\<rparr>)"
  using assms by (simp add: calculate_total_def calculate_subtotal_def Let_def)

lemma calculate_total_success:
  "fst (calculate_total w now self) = Inr t \<Longrightarrow> \<exists>d. delivery_strategy self = Some d"
  by (cases "delivery_strategy self") (simp_all add: calculate_total_unset)

text \<open>
  C3. Whatever the lines, the discount strategy and the weight, \<open>calculate_total\<close>
  raises the \<open>ValueError\<close> when the order has no delivery strategy, and returns a total
  when it has one.
\<close>

theorem missing_delivery_strategy_raises:
  "(delivery_strategy self = None \<longrightarrow> fst (calculate_total w now self) = Inl ValueError)
   \<and> (delivery_strategy self \<noteq> None \<longrightarrow> (\<exists>t. fst (calculate_total w now self) = Inr t))"
  by (auto simp add: calculate_total_unset calculate_total_set)

theorem missing_delivery_strategy_raises_witness:
  "delivery_strategy (add_item_from_cart (milk 1) 2 (Order 0 client)) = None
   \<and> fst (calculate_total 16 0 (add_item_from_cart (milk 1) 2 (Order 0 client)))
       = Inl ValueError
   \<and> delivery_strategy (set_delivery_strategy PostDeliveryStrategy (Order 0 client)) \<noteq> None
   \<and> (\<exists>t. fst (calculate_total 16 0
                (set_delivery_strategy PostDeliveryStrategy (Order 0 client))) = Inr t)"
  using missing_delivery_strategy_raises
          [of "add_item_from_cart (milk 1) 2 (Order 0 client)" 16 0]
        missing_delivery_strategy_raises
          [of "set_delivery_strategy PostDeliveryStrategy (Order 0 client)" 16 0]
  by (simp add: add_item_from_cart_def set_delivery_strategy_def Order_def)

text \<open>
  C4. When \<open>calculate_total\<close> returns, the recorded total is the recorded subtotal
  less the recorded discount, plus the recorded delivery cost, and it is the value
  returned. A new order has subtotal, discount, delivery cost and total all zero.
\<close>

theorem total_is_subtotal_less_discount_plus_delivery:
  "(fst (calculate_total w now self) = Inr t \<longrightarrow>
      total_amount (snd (calculate_total w now self))
        = (subtotal_calculated (snd (calculate_total w now self))
             - applied_discount (snd (calculate_total w now self)))
            + delivery_cost (snd (calculate_total w now self))
      \<and> t = total_amount (snd (calculate_total w now self)))
   \<and> subtotal_calculated (Order oid c) = 0
   \<and> applied_discount (Order oid c) = 0
   \<and> delivery_cost (Order oid c) = 0
   \<and> total_amount (Order oid c) = 0"
proof (intro conjI impI)
  assume ok: "fst (calculate_total w now self) = Inr t"
  then obtain d where d: "delivery_strategy self = Some d"
    using calculate_total_success by blast
  show "total_amount (snd (calculate_total w now self))
        = (subtotal_calculated (snd (calculate_total w now self))
             - applied_discount (snd (calculate_total w now self)))
            + delivery_cost (snd (calculate_total w now self))"
    by (simp add: calculate_total_set [OF d])
  show "t = total_amount (snd (calculate_total w now self))"
    using ok by (simp add: calculate_total_set [OF d])
qed (simp_all add: Order_def)

theorem total_is_subtotal_less_discount_plus_delivery_witness:
  "fst (calculate_total 16 0
          (set_delivery_strategy CourierDeliveryStrategy
             (set_discount_strategy (FixedAmountDiscountStrategy 100)
                (add_item_from_cart (milk 1) 2 (Order 0 client))))) = Inr 470
   \<and> total_amount (snd (calculate_total 16 0
          (set_delivery_strategy CourierDeliveryStrategy
             (set_discount_strategy (FixedAmountDiscountStrategy 100)
                (add_item_from_cart (milk 1) 2 (Order 0 client)))))) = (170 - 100) + 400"
  using total_is_subtotal_less_discount_plus_delivery
          [of 16 0 "set_delivery_strategy CourierDeliveryStrategy
             (set_discount_strategy (FixedAmountDiscountStrategy 100)
                (add_item_from_cart (milk 1) 2 (Order 0 client)))" 470 0 client]
  by (simp add: calculate_total_set [where d = CourierDeliveryStrategy]
        set_delivery_strategy_def set_discount_strategy_def add_item_from_cart_def Order_def
        calculate_subtotal_def get_subtotal_def OrderItem_def calculate_cost_def milk_def
        float_exact)

text \<open>
  C5. After a successful \<open>calculate_total\<close> the order holds a delivery quote whose cost
  is what \<open>calculate_cost\<close> returned for the customer's address and the weight. For the
  courier and the postal strategy this is not the cost that \<open>estimate_delivery_time\<close>
  had put into the quote.
\<close>

theorem quote_cost_is_authoritative:
  assumes "fst (calculate_total w now self) = Inr t"
  shows "\<exists>d info. delivery_strategy self = Some d
           \<and> delivery_info (snd (calculate_total w now self)) = Some info
           \<and> cost info = calculate_cost d (address (customer self)) w
           \<and> (d = CourierDeliveryStrategy \<or> d = PostDeliveryStrategy \<longrightarrow>
                cost info \<noteq> cost (estimate_delivery_time d (address (customer self)) now))"
proof -
  from assms obtain d where d: "delivery_strategy self = Some d"
    using calculate_total_success by blast
  show ?thesis
    by (cases d) (simp_all add: calculate_total_set [OF d] d calculate_cost_def)
qed

theorem quote_cost_is_authoritative_witness:
  "fst (calculate_total 16 0 (set_delivery_strategy CourierDeliveryStrategy (Order 0 client)))
     = Inr 400
   \<and> (\<exists>info. delivery_info (snd (calculate_total 16 0
                  (set_delivery_strategy CourierDeliveryStrategy (Order 0 client)))) = Some info
         \<and> cost info = 400
         \<and> cost (estimate_delivery_time CourierDeliveryStrategy (address client) 0) = 0)"
  using quote_cost_is_authoritative
          [of 16 0 "set_delivery_strategy CourierDeliveryStrategy (Order 0 client)" 400]
  by (simp add: calculate_total_set [where d = CourierDeliveryStrategy]
        set_delivery_strategy_def Order_def calculate_subtotal_def calculate_cost_def)

text \<open>
  C9. A \<open>calculate_total\<close> that raises has already stored the subtotal of the current
  lines and the discount that the current strategy gives on it. The delivery cost, the
  delivery quote, the total and the status are as before, and so is everything else.
\<close>

theorem failed_total_keeps_partial_update:
  assumes "delivery_strategy self = None"
  shows "calculate_total w now self =
           (Inl ValueError,
            self\<lparr>subtotal_calculated := fst (calculate_subtotal self),
                 applied_discount :=
                   apply_discount (discount_strategy self) (fst (calculate_subtotal self))\<rparr>)
         \<and> delivery_cost (snd (calculate_total w now self)) = delivery_cost self
         \<and> delivery_info (snd (calculate_total w now self)) = delivery_info self
         \<and> total_amount (snd (calculate_total w now self)) = total_amount self
         \<and> status (snd (calculate_total w now self)) = status self"
  by (simp add: calculate_total_unset [OF assms])

theorem failed_total_keeps_partial_update_witness:
  "delivery_strategy (set_discount_strategy (FixedAmountDiscountStrategy 100)
                        (add_item_from_cart (milk 1) 2 (Order 0 client))) = None
   \<and> fst (calculate_total 16 0 (set_discount_strategy (FixedAmountDiscountStrategy 100)
                        (add_item_from_cart (milk 1) 2 (Order 0 client)))) = Inl ValueError
   \<and> subtotal_calculated (snd (calculate_total 16 0
        (set_discount_strategy (FixedAmountDiscountStrategy 100)
           (add_item_from_cart (milk 1) 2 (Order 0 client))))) = 170
   \<and> applied_discount (snd (calculate_total 16 0
        (set_discount_strategy (FixedAmountDiscountStrategy 100)
           (add_item_from_cart (milk 1) 2 (Order 0 client))))) = 100
   \<and> snd (calculate_total 16 0 (set_discount_strategy (FixedAmountDiscountStrategy 100)
                        (add_item_from_cart (milk 1) 2 (Order 0 client))))
       \<noteq> set_discount_strategy (FixedAmountDiscountStrategy 100)
                        (add_item_from_cart (milk 1) 2 (Order 0 client))"
  using failed_total_keeps_partial_update
          [of "set_discount_strategy (FixedAmountDiscountStrategy 100)
                 (add_item_from_cart (milk 1) 2 (Order 0 client))" 16 0]
  by (simp add: set_discount_strategy_def add_item_from_cart_def Order_def
        calculate_subtotal_def get_subtotal_def OrderItem_def milk_def float_exact)

section \<open>Order lines and cart entries\<close>








section \<open>Placing an order\<close>

lemma PAID_neq_PENDING: "PAID \<noteq> PENDING"
  by (simp add: PAID_def PENDING_def)

lemma place_order_result:
  "place_order self oid now crt c discount delivery dd pd =
     (let ord = snd (calculate_total (case dd ''weight'' of None \<Rightarrow> 0 | Some w \<Rightarrow> w) now
                  (set_delivery_strategy delivery (set_discount_strategy discount
                     (foldl (\<lambda>ord (p, q). add_item_from_cart p q ord) (Order oid c)
                        (get_items crt)))))
      in Inr (ord\<lparr>status := if payment_processor self (total_amount ord) pd
                              then PAID else PENDING\<rparr>))"
  by (simp add: place_order_def Let_def set_delivery_strategy_def
        calculate_total_set [where d = delivery])

lemma cart_items_demo:
  "cart_items (cart u1 u2 u3) = [(milk u1, 2), (bread u2, 1), (heavy_item u3, 1)]"
  by (simp add: cart_def add_item_def ShoppingCart_def milk_def bread_def heavy_item_def)

text \<open>
  C7. The demonstration run: the cart holds milk (85.00, twice), bread (40.00, once) and
  the dumbbell (1200.00, once), its subtotal is 1410.00; the order placed with a fixed
  discount of 100.00, courier delivery and weight 16.0 records subtotal 1410.00, discount
  100.00, delivery cost 400.00 and total 1710.00. The courier's cost is 400.00 for every
  address and weight.
\<close>

theorem demo_scenario:
  "cart_calculate_subtotal (cart u1 u2 u3) = 1410
   \<and> (\<exists>ord. final_order u1 u2 u3 oid now = Inr ord
         \<and> subtotal_calculated ord = 1410
         \<and> applied_discount ord = 100
         \<and> delivery_cost ord = 400
         \<and> total_amount ord = 1710)
   \<and> (\<forall>addr w. calculate_cost CourierDeliveryStrategy addr w = 400)"
proof (intro conjI)
  show "cart_calculate_subtotal (cart u1 u2 u3) = 1410"
    by (simp add: cart_calculate_subtotal_def cart_items_demo milk_def bread_def heavy_item_def
          float_exact)
  show "\<forall>addr w. calculate_cost CourierDeliveryStrategy addr w = 400"
    by (simp add: calculate_cost_def)
  show "\<exists>ord. final_order u1 u2 u3 oid now = Inr ord
         \<and> subtotal_calculated ord = 1410
         \<and> applied_discount ord = 100
         \<and> delivery_cost ord = 400
         \<and> total_amount ord = 1710"
    by (simp add: final_order_def place_order_result Let_def get_items_def cart_items_demo
          set_delivery_strategy_def set_discount_strategy_def add_item_from_cart_def
          Order_def calculate_total_set [where d = CourierDeliveryStrategy]
          calculate_subtotal_def get_subtotal_def OrderItem_def calculate_cost_def
          milk_def bread_def heavy_item_def delivery_details_def float_exact)
qed

text \<open>
  C8. \<open>place_order\<close> returns an order. Its status is \<open>Paid\<close> when the payment processor
  accepts the computed total and \<open>Pending\<close> when it declines; it is never \<open>Shipped\<close> or
  \<open>Delivered\<close>.
\<close>

theorem payment_gate_decides_status:
  "\<exists>ord. place_order self oid now crt c discount delivery dd pd = Inr ord
      \<and> (payment_processor self (total_amount ord) pd \<longrightarrow> status ord = PAID)
      \<and> (\<not> payment_processor self (total_amount ord) pd \<longrightarrow> status ord = PENDING)
      \<and> (status ord = PAID \<or> status ord = PENDING)
      \<and> status ord \<noteq> SHIPPED \<and> status ord \<noteq> DELIVERED"
  by (simp add: place_order_result Let_def PAID_def PENDING_def SHIPPED_def DELIVERED_def)

theorem payment_gate_decides_status_witness:
  "(\<exists>ord. place_order \<lparr>payment_processor = (\<lambda>amount details. True)\<rparr> 0 0 (cart 1 2 3) client
            NoDiscount PickupDeliveryStrategy delivery_details payment_details = Inr ord
      \<and> status ord = PAID)
   \<and> (\<exists>ord. place_order \<lparr>payment_processor = (\<lambda>amount details. False)\<rparr> 0 0 (cart 1 2 3) client
            NoDiscount PickupDeliveryStrategy delivery_details payment_details = Inr ord
      \<and> status ord = PENDING)"
  using payment_gate_decides_status
          [of "\<lparr>payment_processor = (\<lambda>amount details. True)\<rparr>" 0 0 "cart 1 2 3" client
              NoDiscount PickupDeliveryStrategy delivery_details payment_details]
        payment_gate_decides_status
          [of "\<lparr>payment_processor = (\<lambda>amount details. False)\<rparr>" 0 0 "cart 1 2 3" client
              NoDiscount PickupDeliveryStrategy delivery_details payment_details]
  by auto

text \<open>
  C10. \<open>PaymentProcessor.process_payment\<close> answers \<open>True\<close> for every amount and every
  details mapping. A facade built on it therefore returns every order with status
  \<open>Paid\<close>, never \<open>Pending\<close>.
\<close>

theorem provided_processor_always_pays:
  "process_payment p amount details
   \<and> (\<exists>ord. place_order (OrderPlacementFacade p) oid now crt c discount delivery dd pd = Inr ord
         \<and> status ord = PAID \<and> status ord \<noteq> PENDING)"
  by (simp add: place_order_result Let_def OrderPlacementFacade_def process_payment_def
        PAID_neq_PENDING)

end
